theory Spec2Isabelle
  imports Complex_Main "HOL-Library.Monad_Syntax"
begin

section \<open>Solar elevation and azimuth (\<open>angle.py\<close>)\<close>

text \<open>
  The repository is one Python function, \<open>solar_angle\<close>, a chain of closed-form
  formulas over NumPy double-precision numbers. The embedding below follows the function
  line by line. Numbers are exact reals: rounding is not part of the model, so every
  statement proved here is a statement about the formulas as written, evaluated in exact
  arithmetic. The one rounding that is kept is the one that changes a range: \<open>np.mod\<close>
  can return its divisor. What NumPy does instead of raising is kept: a division by zero and an
  inverse trigonometric function outside \<open>[-1, 1]\<close> give a non-finite number
  (\<open>inf\<close> or \<open>nan\<close>, with a warning), which every later operation of this
  program turns into \<open>nan\<close>. A NumPy result is therefore a \<open>real option\<close>,
  \<open>None\<close> standing for a non-finite value.
\<close>

subsection \<open>The NumPy operations used\<close>

type_synonym npfloat = "real option"

definition deg2rad :: "real \<Rightarrow> real" where
  "deg2rad x = x * (pi / 180)"

definition rad2deg :: "real \<Rightarrow> real" where
  "rad2deg x = x * (180 / pi)"

text \<open>
  \<open>np.mod(x, y)\<close> with a positive divisor takes \<open>fmod(x, y)\<close>, which is exact and
  has the sign of \<open>x\<close>, and adds \<open>y\<close> to it when it is negative. That sum is
  rounded to a double: when the exact sum is within half the spacing of the doubles below
  \<open>y\<close>, the result is \<open>y\<close> itself, outside the range \<open>[0, y)\<close> of the
  remainder. \<open>half_ulp y\<close> is that half spacing for a \<open>y\<close> that is not a power of
  two; the function is only used with the divisors 360 and 1440, whose significands are
  even, so that a tie rounds to \<open>y\<close> as well.
\<close>

definition half_ulp :: "real \<Rightarrow> real" where
  "half_ulp y = 2 powr (of_int \<lfloor>log 2 y\<rfloor> - 53)"

definition np_mod :: "real \<Rightarrow> real \<Rightarrow> real" where
  "np_mod x y =
     (let r = x - y * of_int \<lfloor>x / y\<rfloor>
      in if x < 0 \<and> y - half_ulp y \<le> r then y else r)"

definition np_div :: "real \<Rightarrow> real \<Rightarrow> npfloat" where
  \<comment> \<open>\<open>/\<close> on NumPy scalars: a zero divisor gives \<open>inf\<close> or \<open>nan\<close>, not an
      exception.\<close>
  "np_div x y = (if y = 0 then None else Some (x / y))"

definition np_arccos :: "real \<Rightarrow> npfloat" where
  "np_arccos x = (if - 1 \<le> x \<and> x \<le> 1 then Some (arccos x) else None)"

definition np_arcsin :: "real \<Rightarrow> npfloat" where
  "np_arcsin x = (if - 1 \<le> x \<and> x \<le> 1 then Some (arcsin x) else None)"

definition np_arctan2 :: "real \<Rightarrow> real \<Rightarrow> real" where
  "np_arctan2 y x =
     (if 0 < x then arctan (y / x)
      else if x < 0 then (if 0 \<le> y then arctan (y / x) + pi else arctan (y / x) - pi)
      else if 0 < y then pi / 2
      else if y < 0 then - (pi / 2)
      else 0)"

text \<open>
  \<open>np.sin\<close>, \<open>np.cos\<close> and \<open>np.tan\<close> are the real functions \<^const>\<open>sin\<close>,
  \<^const>\<open>cos\<close> and \<^const>\<open>tan\<close>. \<open>np.tan\<close> returns a finite number for every
  finite argument, and so does \<^const>\<open>tan\<close>; at the poles, which no double hits
  exactly, the value of \<^const>\<open>tan\<close> is \<open>0\<close>. The one place where this shows is
  the last branch of the refraction correction at a raw elevation of exactly \<open>-90\<close>:
  the model divides by \<open>0\<close> there and gives a non-finite correction, where doubles
  give a correction near \<open>0\<close>. No statement below is about that point.
\<close>

subsection \<open>The calendar of \<open>datetime\<close>\<close>

text \<open>
  \<open>datetime.datetime(year, month, day)\<close> is the proleptic Gregorian calendar of
  Python's standard library: it raises \<open>ValueError\<close> unless
  \<open>1 \<le> year \<le> 9999\<close>, \<open>1 \<le> month \<le> 12\<close> and the day exists in
  that month. The difference of two dates counts the days between their ordinals.
\<close>

datatype error = ValueError

record date =
  d_year :: int
  d_month :: int
  d_day :: int

definition is_leap :: "int \<Rightarrow> bool" where
  "is_leap year \<longleftrightarrow> year mod 4 = 0 \<and> (year mod 100 \<noteq> 0 \<or> year mod 400 = 0)"

definition DAYS_IN_MONTH :: "int list" where
  "DAYS_IN_MONTH = [31, 28, 31, 30, 31, 30, 31, 31, 30, 31, 30, 31]"

definition DAYS_BEFORE_MONTH :: "int list" where
  "DAYS_BEFORE_MONTH = [0, 31, 59, 90, 120, 151, 181, 212, 243, 273, 304, 334]"

definition days_in_month :: "int \<Rightarrow> int \<Rightarrow> int" where
  "days_in_month year month =
     (if month = 2 \<and> is_leap year then 29 else DAYS_IN_MONTH ! nat (month - 1))"

definition days_before_year :: "int \<Rightarrow> int" where
  "days_before_year year =
     (let y = year - 1 in y * 365 + y div 4 - y div 100 + y div 400)"

definition days_before_month :: "int \<Rightarrow> int \<Rightarrow> int" where
  "days_before_month year month =
     DAYS_BEFORE_MONTH ! nat (month - 1) + (if month > 2 \<and> is_leap year then 1 else 0)"

definition valid_date :: "int \<Rightarrow> int \<Rightarrow> int \<Rightarrow> bool" where
  "valid_date year month day \<longleftrightarrow>
     1 \<le> year \<and> year \<le> 9999 \<and> 1 \<le> month \<and> month \<le> 12 \<and>
     1 \<le> day \<and> day \<le> days_in_month year month"

definition datetime :: "int \<Rightarrow> int \<Rightarrow> int \<Rightarrow> error + date" where
  "datetime year month day =
     (if valid_date year month day
      then Inr \<lparr>d_year = year, d_month = month, d_day = day\<rparr>
      else Inl ValueError)"

definition toordinal :: "date \<Rightarrow> int" where
  "toordinal dt =
     days_before_year (d_year dt) + days_before_month (d_year dt) (d_month dt) + d_day dt"

definition days_between :: "date \<Rightarrow> date \<Rightarrow> int" where
  \<comment> \<open>\<open>(a - b).days\<close>\<close>
  "days_between a b = toordinal a - toordinal b"

definition reference :: date where
  "reference = \<lparr>d_year = 1899, d_month = 12, d_day = 31\<rparr>"

subsection \<open>The formulas of \<open>solar_angle\<close>, one definition for each local variable\<close>

text \<open>
  Each definition is the right-hand side of one assignment of the source and has the name
  of the variable assigned. The source assigns \<open>SEC\<close> twice: first the Sun's equation
  of centre (here \<open>SEC\<close>), later the elevation corrected for refraction (here
  \<open>SEC_corrected\<close>).
\<close>

definition julian_day :: "int \<Rightarrow> int \<Rightarrow> int \<Rightarrow> real \<Rightarrow> real" where
  "julian_day days hour minute tz =
     of_int days + 2415018.5 + of_int (hour * 60 + minute) / (24 * 60) - tz / 24 + 1"

definition julian_century :: "real \<Rightarrow> real" where
  "julian_century jd = (jd - 2451545) / 36525"

definition GMLS :: "real \<Rightarrow> real" where
  "GMLS jc = np_mod (280.46646 + jc * (36000.76983 + jc * 0.0003032)) 360"

definition GMAS :: "real \<Rightarrow> real" where
  "GMAS jc = 357.52911 + jc * (35999.05029 - 0.0001537 * jc)"

definition EEO :: "real \<Rightarrow> real" where
  "EEO jc = 0.016708634 - jc * (0.000042037 + 0.0000001267 * jc)"

definition SEC :: "real \<Rightarrow> real \<Rightarrow> real" where
  "SEC jc gmas =
     sin (deg2rad gmas) * (1.914602 - jc * (0.004817 + 0.000014 * jc))
     + sin (deg2rad (2 * gmas)) * (0.019993 - 0.000101 * jc)
     + sin (deg2rad (3 * gmas)) * 0.000289"

definition STL :: "real \<Rightarrow> real \<Rightarrow> real" where
  "STL gmls sec = gmls + sec"

definition STA :: "real \<Rightarrow> real \<Rightarrow> real" where
  "STA gmas sec = gmas + sec"

definition SRV :: "real \<Rightarrow> real \<Rightarrow> npfloat" where
  "SRV eeo sta = np_div (1.000001018 * (1 - eeo ^ 2)) (1 + eeo * cos (deg2rad sta))"

definition SAL :: "real \<Rightarrow> real \<Rightarrow> real" where
  "SAL jc stl = stl - 0.00569 - 0.00478 * sin (deg2rad (125.04 - 1934.136 * jc))"

definition MOE :: "real \<Rightarrow> real" where
  "MOE jc = 23 + (26 + (21.448 - jc * (46.815 + jc * (0.00059 - jc * 0.001813))) / 60) / 60"

definition OC :: "real \<Rightarrow> real \<Rightarrow> real" where
  "OC jc moe = moe + 0.00256 * cos (deg2rad (125.04 - 1934.136 * jc))"

definition SRA :: "real \<Rightarrow> real \<Rightarrow> real" where
  "SRA oc sal =
     rad2deg (np_arctan2 (cos (deg2rad oc) * sin (deg2rad sal)) (cos (deg2rad sal)))"

definition SD :: "real \<Rightarrow> real \<Rightarrow> npfloat" where
  "SD oc sal = map_option rad2deg (np_arcsin (sin (deg2rad oc) * sin (deg2rad sal)))"

definition var_y :: "real \<Rightarrow> real" where
  "var_y oc = tan (deg2rad (oc / 2)) ^ 2"

definition ET :: "real \<Rightarrow> real \<Rightarrow> real \<Rightarrow> real \<Rightarrow> real" where
  "ET gmls gmas eeo y =
     4 * rad2deg
       (y * sin (2 * deg2rad gmls) - 2 * eeo * sin (deg2rad gmas)
        + 4 * eeo * y * sin (deg2rad gmas) * cos (2 * deg2rad gmls)
        - 0.5 * y ^ 2 * sin (4 * deg2rad gmls)
        - 1.25 * eeo ^ 2 * sin (2 * deg2rad gmas))"

definition HAS :: "real \<Rightarrow> npfloat \<Rightarrow> npfloat" where
  "HAS lat sd =
     do {
       d \<leftarrow> sd;
       q \<leftarrow> np_div (cos (deg2rad 90.833)) (cos (deg2rad lat) * cos (deg2rad d));
       a \<leftarrow> np_arccos (q - tan (deg2rad lat) * tan (deg2rad d));
       Some (rad2deg a)
     }"

definition SN :: "real \<Rightarrow> real \<Rightarrow> real \<Rightarrow> real" where
  "SN lon et tz = (720 - 4 * lon - et + tz * 60) / 1440"

definition SrT :: "real \<Rightarrow> npfloat \<Rightarrow> npfloat" where
  "SrT sn has = map_option (\<lambda>h. sn - h * 4 / 1440) has"

definition SsT :: "real \<Rightarrow> npfloat \<Rightarrow> npfloat" where
  "SsT sn has = map_option (\<lambda>h. sn + h * 4 / 1440) has"

definition SlD :: "npfloat \<Rightarrow> npfloat" where
  "SlD has = map_option (\<lambda>h. 8 * h) has"

definition TST :: "int \<Rightarrow> int \<Rightarrow> real \<Rightarrow> real \<Rightarrow> real \<Rightarrow> real" where
  "TST hour minute et lon tz =
     np_mod (of_int (hour * 60 + minute) / (24 * 60) * 1440 + et + 4 * lon - 60 * tz) 1440"

definition HA :: "real \<Rightarrow> real" where
  "HA tst = (if tst / 4 < 0 then tst / 4 + 180 else tst / 4 - 180)"

definition SZA :: "real \<Rightarrow> npfloat \<Rightarrow> real \<Rightarrow> npfloat" where
  "SZA lat sd ha =
     do {
       d \<leftarrow> sd;
       a \<leftarrow> np_arccos (sin (deg2rad lat) * sin (deg2rad d)
                         + cos (deg2rad lat) * cos (deg2rad d) * cos (deg2rad ha));
       Some (rad2deg a)
     }"

definition SEA :: "npfloat \<Rightarrow> npfloat" where
  "SEA sza = map_option (\<lambda>z. 90 - z) sza"

definition AAR :: "npfloat \<Rightarrow> npfloat" where
  \<comment> \<open>A \<open>nan\<close> elevation fails the three comparisons and reaches the last branch,
      whose quotient is \<open>nan\<close> again. The last line is \<open>AAR /= 3600\<close>.\<close>
  "AAR sea =
     (case sea of
        None \<Rightarrow> None
      | Some e \<Rightarrow>
          let radSEA = deg2rad e in
          map_option (\<lambda>a. a / 3600)
            (if e > 85 then Some 0
             else if e > 5 then
               do {
                 a \<leftarrow> np_div 1 (tan radSEA);
                 b \<leftarrow> np_div 0.07 (tan radSEA ^ 3);
                 c \<leftarrow> np_div 0.000086 (tan radSEA ^ 5);
                 Some (a - b + c)
               }
             else if e > - 0.575 then
               Some (1735 + e * (- 518.2 + e * (103.4 + e * (- 12.79 + e * 0.711))))
             else np_div (- 20.772) (tan (deg2rad e))))"

definition SEC_corrected :: "npfloat \<Rightarrow> npfloat \<Rightarrow> npfloat" where
  "SEC_corrected sea aar = do { e \<leftarrow> sea; a \<leftarrow> aar; Some (e + a) }"

definition SAA :: "real \<Rightarrow> npfloat \<Rightarrow> npfloat \<Rightarrow> real \<Rightarrow> npfloat" where
  "SAA lat sza sd ha =
     (if ha > 0 then
        do {
          z \<leftarrow> sza;
          d \<leftarrow> sd;
          q \<leftarrow> np_div (sin (deg2rad lat) * cos (deg2rad z) - sin (deg2rad d))
                       (cos (deg2rad lat) * sin (deg2rad z));
          a \<leftarrow> np_arccos q;
          let temp = rad2deg a + 180;
          Some (np_mod temp 360)
        }
      else
        do {
          z \<leftarrow> sza;
          d \<leftarrow> sd;
          q \<leftarrow> np_div (sin (deg2rad lat) * cos (deg2rad z) - sin (deg2rad d))
                       (cos (deg2rad lat) * sin (deg2rad z));
          a \<leftarrow> np_arccos q;
          let temp = 540 - rad2deg a;
          Some (np_mod temp 360)
        })"

subsection \<open>The function\<close>

text \<open>
  \<open>locals\<close> is the frame of \<open>solar_angle\<close> when it reaches its \<open>return\<close>:
  one field for each variable assigned after the date arithmetic. \<open>solar_locals\<close>
  runs the assignments in the order of the source, from the day count
  \<open>(date - reference).days\<close>; \<open>solar_angle\<close> builds the date, which is where the
  function can raise, and returns the pair \<open>(SEC, SAA)\<close> of the frame.
\<close>

record locals =
  v_julian_day :: real
  v_julian_century :: real
  v_GMLS :: real
  v_GMAS :: real
  v_EEO :: real
  v_SEC :: real
  v_STL :: real
  v_STA :: real
  v_SRV :: npfloat
  v_SAL :: real
  v_MOE :: real
  v_OC :: real
  v_SRA :: real
  v_SD :: npfloat
  v_var_y :: real
  v_ET :: real
  v_HAS :: npfloat
  v_SN :: real
  v_SrT :: npfloat
  v_SsT :: npfloat
  v_SlD :: npfloat
  v_TST :: real
  v_HA :: real
  v_SZA :: npfloat
  v_SEA :: npfloat
  v_AAR :: npfloat
  v_SEC_corrected :: npfloat
  v_SAA :: npfloat

definition solar_locals :: "int \<Rightarrow> int \<Rightarrow> int \<Rightarrow> real \<Rightarrow> real \<Rightarrow> real \<Rightarrow> locals" where
  "solar_locals days hour minute tz lat lon =
     (let jd = julian_day days hour minute tz;
          jc = julian_century jd;
          gmls = GMLS jc;
          gmas = GMAS jc;
          eeo = EEO jc;
          sec = SEC jc gmas;
          stl = STL gmls sec;
          sta = STA gmas sec;
          srv = SRV eeo sta;
          sal = SAL jc stl;
          moe = MOE jc;
          oc = OC jc moe;
          sra = SRA oc sal;
          sd = SD oc sal;
          y = var_y oc;
          et = ET gmls gmas eeo y;
          has = HAS lat sd;
          sn = SN lon et tz;
          srt = SrT sn has;
          sst = SsT sn has;
          sld = SlD has;
          tst = TST hour minute et lon tz;
          ha = HA tst;
          sza = SZA lat sd ha;
          sea = SEA sza;
          aar = AAR sea;
          sec' = SEC_corrected sea aar;
          saa = SAA lat sza sd ha
      in \<lparr>v_julian_day = jd, v_julian_century = jc, v_GMLS = gmls, v_GMAS = gmas,
          v_EEO = eeo, v_SEC = sec, v_STL = stl, v_STA = sta, v_SRV = srv, v_SAL = sal,
          v_MOE = moe, v_OC = oc, v_SRA = sra, v_SD = sd, v_var_y = y, v_ET = et,
          v_HAS = has, v_SN = sn, v_SrT = srt, v_SsT = sst, v_SlD = sld, v_TST = tst,
          v_HA = ha, v_SZA = sza, v_SEA = sea, v_AAR = aar, v_SEC_corrected = sec',
          v_SAA = saa\<rparr>)"

definition solar_angle ::
  "int \<Rightarrow> int \<Rightarrow> int \<Rightarrow> int \<Rightarrow> int \<Rightarrow> real \<Rightarrow> real \<Rightarrow> real \<Rightarrow> error + npfloat \<times> npfloat" where
  "solar_angle year month day hour minute tz lat lon =
     (case datetime year month day of
        Inl err \<Rightarrow> Inl err
      | Inr dt \<Rightarrow>
          let v = solar_locals (days_between dt reference) hour minute tz lat lon
          in Inr (v_SEC_corrected v, v_SAA v))"

subsection \<open>Definitions used to state the properties\<close>

text \<open>
  The equation of time and the declination depend on the instant only, not on the
  observer's position; \<open>ET_at\<close> and \<open>SD_at\<close> read them from the frame.
\<close>

definition ET_at :: "int \<Rightarrow> int \<Rightarrow> int \<Rightarrow> real \<Rightarrow> real" where
  "ET_at days hour minute tz = v_ET (solar_locals days hour minute tz 0 0)"

definition SD_at :: "int \<Rightarrow> int \<Rightarrow> int \<Rightarrow> real \<Rightarrow> npfloat" where
  "SD_at days hour minute tz = v_SD (solar_locals days hour minute tz 0 0)"

text \<open>
  The longitude at which the argument of \<open>np.mod\<close> in the true solar time of the given
  instant is \<open>t\<close>; for \<open>0 \<le> t < 1440\<close> the true solar time is then \<open>t\<close> minutes.
\<close>

definition lon_for_TST :: "int \<Rightarrow> int \<Rightarrow> int \<Rightarrow> real \<Rightarrow> real \<Rightarrow> real" where
  "lon_for_TST days hour minute tz t =
     (t - (of_int (hour * 60 + minute) + ET_at days hour minute tz - 60 * tz)) / 4"

text \<open>
  \<open>solar_angle\<close> with the assignments of \<open>HAS\<close>, \<open>SN\<close>, \<open>SrT\<close>,
  \<open>SsT\<close> and \<open>SlD\<close> (lines 76 to 83 of the source) deleted.
\<close>

definition solar_angle_without_sun_times ::
  "int \<Rightarrow> int \<Rightarrow> int \<Rightarrow> int \<Rightarrow> int \<Rightarrow> real \<Rightarrow> real \<Rightarrow> real \<Rightarrow> error + npfloat \<times> npfloat" where
  "solar_angle_without_sun_times year month day hour minute tz lat lon =
     (case datetime year month day of
        Inl err \<Rightarrow> Inl err
      | Inr dt \<Rightarrow>
          let jd = julian_day (days_between dt reference) hour minute tz;
              jc = julian_century jd;
              gmls = GMLS jc;
              gmas = GMAS jc;
              eeo = EEO jc;
              sec = SEC jc gmas;
              stl = STL gmls sec;
              sta = STA gmas sec;
              srv = SRV eeo sta;
              sal = SAL jc stl;
              moe = MOE jc;
              oc = OC jc moe;
              sra = SRA oc sal;
              sd = SD oc sal;
              y = var_y oc;
              et = ET gmls gmas eeo y;
              tst = TST hour minute et lon tz;
              ha = HA tst;
              sza = SZA lat sd ha;
              sea = SEA sza;
              aar = AAR sea;
              sec' = SEC_corrected sea aar;
              saa = SAA lat sza sd ha
          in Inr (sec', saa))"

text \<open>
  The refraction correction and the azimuth in the words of the specification (steps 9
  and 10 of its algorithm), to be compared with \<open>AAR\<close>, \<open>SEC_corrected\<close> and
  \<open>SAA\<close> above. \<open>refraction_spec\<close> is in arcseconds.
\<close>

definition refraction_spec :: "real \<Rightarrow> npfloat" where
  "refraction_spec e =
     (if e > 85 then Some 0
      else if 5 < e \<and> e \<le> 85 then
        Some (cot (deg2rad e) - 0.07 * cot (deg2rad e) ^ 3 + 0.000086 * cot (deg2rad e) ^ 5)
      else if - 0.575 < e \<and> e \<le> 5 then
        Some (1735 + e * (- 518.2 + e * (103.4 + e * (- 12.79 + e * 0.711))))
      else np_div (- 20.772) (tan (deg2rad e)))"

definition corrected_elevation_spec :: "npfloat \<Rightarrow> npfloat" where
  "corrected_elevation_spec raw =
     do { e \<leftarrow> raw; r \<leftarrow> refraction_spec e; Some (e + r / 3600) }"

definition azimuth_ratio_spec :: "real \<Rightarrow> npfloat \<Rightarrow> npfloat \<Rightarrow> npfloat" where
  "azimuth_ratio_spec lat zenith declination =
     do {
       z \<leftarrow> zenith;
       d \<leftarrow> declination;
       np_div (sin (deg2rad lat) * cos (deg2rad z) - sin (deg2rad d))
              (cos (deg2rad lat) * sin (deg2rad z))
     }"

definition azimuth_spec :: "real \<Rightarrow> npfloat \<Rightarrow> npfloat" where
  "azimuth_spec ha ratio =
     do {
       r \<leftarrow> ratio;
       a \<leftarrow> np_arccos r;
       Some (if ha > 0 then np_mod (rad2deg a + 180) 360 else np_mod (540 - rad2deg a) 360)
     }"

text \<open>
  The azimuth at the equator on 2000-01-01 at 06:00 true solar time, where the hour angle
  is \<open>-90\<close> and the zenith angle is \<open>90\<close>.
\<close>

definition azimuth_at_six :: real where
  "azimuth_at_six =
     np_mod (540 - rad2deg (arccos (- sin (deg2rad (the (SD_at 36525 6 0 0)))))) 360"

text \<open>
  2000-01-01 at 12:00 with \<open>tz = 0\<close> is the epoch of the Julian century: there
  \<open>julian_century\<close> is \<open>0\<close>. \<open>noon_declination\<close> is the Sun's declination at
  that instant and \<open>noon_lon\<close> the longitude where the hour angle is then \<open>0\<close>.
\<close>

definition noon_lon :: real where
  "noon_lon = lon_for_TST 36525 12 0 0 720"

definition noon_declination :: real where
  "noon_declination = the (SD_at 36525 12 0 0)"

section \<open>Properties\<close>

subsection \<open>NumPy operations\<close>

lemma floored_remainder_range:
  fixes x y :: real
  assumes "0 < y"
  shows "0 \<le> x - y * of_int \<lfloor>x / y\<rfloor>" and "x - y * of_int \<lfloor>x / y\<rfloor> < y"
proof -
  have f: "of_int \<lfloor>x / y\<rfloor> \<le> x / y" and g: "x / y < of_int \<lfloor>x / y\<rfloor> + 1"
    by linarith+
  have "y * of_int \<lfloor>x / y\<rfloor> \<le> y * (x / y)"
    using f assms by (intro mult_left_mono) auto
  then show "0 \<le> x - y * of_int \<lfloor>x / y\<rfloor>" using assms by simp
  have "y * (x / y) < y * (of_int \<lfloor>x / y\<rfloor> + 1)"
    using g assms by (intro mult_strict_left_mono) auto
  then show "x - y * of_int \<lfloor>x / y\<rfloor> < y" using assms by (simp add: algebra_simps)
qed

lemma np_mod_range:
  assumes "0 < y"
  shows "0 \<le> np_mod x y" and "np_mod x y \<le> y"
  using floored_remainder_range [OF assms, of x] assms
  by (simp_all add: np_mod_def Let_def)

lemma np_mod_less:
  assumes "0 < y" "0 \<le> x"
  shows "np_mod x y < y"
  using floored_remainder_range [OF assms(1), of x] assms(2)
  by (simp add: np_mod_def Let_def)

lemma np_mod_small: "0 \<le> x \<Longrightarrow> x < y \<Longrightarrow> np_mod x y = x"
  by (simp add: np_mod_def floor_eq_iff)

lemma half_ulp_1440: "half_ulp 1440 = 1 / 2 ^ 43"
proof -
  have "(2 :: real) powr of_int 10 \<le> 1440 \<and> (1440 :: real) < 2 powr of_int (10 + 1)"
    by (simp add: powr_int)
  then have "\<lfloor>log 2 (1440 :: real)\<rfloor> = 10"
    by (subst floor_log_eq_powr_iff) simp_all
  then show ?thesis by (simp add: half_ulp_def powr_neg_numeral)
qed

lemma np_mod_rounds_up: "np_mod (- (1 / 2 ^ 51)) 1440 = 1440"
proof -
  have "\<lfloor>- (1 / 2 ^ 51) / (1440 :: real)\<rfloor> = - 1"
    by (simp add: floor_eq_iff)
  then show ?thesis
    by (simp add: np_mod_def Let_def half_ulp_1440)
qed

lemma deg2rad_rad2deg [simp]: "deg2rad (rad2deg x) = x"
  by (simp add: deg2rad_def rad2deg_def)

lemma rad2deg_deg2rad [simp]: "rad2deg (deg2rad x) = x"
  by (simp add: deg2rad_def rad2deg_def)

lemma deg2rad_less_iff [simp]: "deg2rad x < deg2rad y \<longleftrightarrow> x < y"
  by (simp add: deg2rad_def)

lemma deg2rad_le_iff [simp]: "deg2rad x \<le> deg2rad y \<longleftrightarrow> x \<le> y"
  by (simp add: deg2rad_def)

lemma deg2rad_90: "deg2rad 90 = pi / 2"
  by (simp add: deg2rad_def)

lemma deg2rad_0 [simp]: "deg2rad 0 = 0"
  by (simp add: deg2rad_def)

lemma deg2rad_minus: "deg2rad (- x) = - deg2rad x"
  by (simp add: deg2rad_def)

lemma deg2rad_quadrant:
  "deg2rad x < pi / 2 \<longleftrightarrow> x < 90" "- (pi / 2) < deg2rad x \<longleftrightarrow> - 90 < x"
  "0 < deg2rad x \<longleftrightarrow> 0 < x" "deg2rad x < 0 \<longleftrightarrow> x < 0"
proof -
  have a: "pi / 2 = deg2rad 90" "- (pi / 2) = deg2rad (- 90)" "0 = deg2rad 0"
    by (simp_all add: deg2rad_def)
  show "deg2rad x < pi / 2 \<longleftrightarrow> x < 90" unfolding a(1) by (rule deg2rad_less_iff)
  show "- (pi / 2) < deg2rad x \<longleftrightarrow> - 90 < x" unfolding a(2) by (rule deg2rad_less_iff)
  show "0 < deg2rad x \<longleftrightarrow> 0 < x" by (subst a(3)) (rule deg2rad_less_iff)
  show "deg2rad x < 0 \<longleftrightarrow> x < 0" by (subst a(3)) (rule deg2rad_less_iff)
qed

lemma pi_ge_3: "3 \<le> pi"
  using sin_x_le_x [of "pi / 6"] by (simp add: sin_30)

lemma sin_lower:
  fixes x :: real
  assumes "0 \<le> x" "x \<le> 1"
  shows "5 * x / 6 \<le> sin x"
proof -
  have "\<bar>sin x - (\<Sum>m<3. sin_coeff m * x ^ m)\<bar> \<le> inverse (fact 3) * \<bar>x\<bar> ^ 3"
    by (rule Maclaurin_sin_bound)
  moreover have "(\<Sum>m<3. sin_coeff m * x ^ m) = x"
    by (simp add: sin_coeff_def numeral_3_eq_3)
  moreover have "inverse (fact 3) * \<bar>x\<bar> ^ 3 = x ^ 3 / 6"
    using assms by (simp add: fact_numeral numeral_3_eq_3)
  ultimately have "x - x ^ 3 / 6 \<le> sin x" by linarith
  moreover have "x ^ 3 \<le> x"
  proof -
    have "x ^ 2 \<le> 1" using assms by (simp add: power_le_one)
    then have "x * x ^ 2 \<le> x * 1" using assms(1) by (rule mult_left_mono)
    then show ?thesis by (simp add: power3_eq_cube power2_eq_square)
  qed
  ultimately show ?thesis by linarith
qed

lemma tan_lower:
  fixes x :: real
  assumes "0 \<le> x" "x \<le> 1"
  shows "5 * x / 6 \<le> tan x"
proof -
  have x2: "x < pi / 2" using assms pi_ge_3 by linarith
  have c: "0 < cos x" using assms x2 by (intro cos_gt_zero_pi) linarith+
  have s: "0 \<le> sin x" using assms x2 by (intro sin_ge_zero) linarith+
  have "sin x * cos x \<le> sin x * 1" using s by (intro mult_left_mono) simp_all
  then have "sin x \<le> sin x / cos x" using c by (simp add: field_simps)
  then have "sin x \<le> tan x" by (simp add: tan_def)
  with sin_lower [OF assms] show ?thesis by linarith
qed

lemma cosine_rule_bounded:
  fixes a b h :: real
  shows "\<bar>sin a * sin b + cos a * cos b * cos h\<bar> \<le> 1"
proof -
  define u where "u = cos (a - b)"
  define w where "w = cos (a + b)"
  define c where "c = cos h"
  have uw: "\<bar>u\<bar> \<le> 1" "\<bar>w\<bar> \<le> 1" and c: "- 1 \<le> c" "c \<le> 1"
    by (simp_all add: u_def w_def c_def)
  have e: "sin a * sin b + cos a * cos b * c = u * ((1 + c) / 2) - w * ((1 - c) / 2)"
    unfolding u_def w_def cos_diff cos_add by (simp add: field_simps)
  have "\<bar>u * ((1 + c) / 2) - w * ((1 - c) / 2)\<bar>
          \<le> \<bar>u * ((1 + c) / 2)\<bar> + \<bar>w * ((1 - c) / 2)\<bar>"
    by (rule abs_triangle_ineq4)
  also have "\<dots> = \<bar>u\<bar> * ((1 + c) / 2) + \<bar>w\<bar> * ((1 - c) / 2)"
    using c by (simp add: abs_mult)
  also have "\<dots> \<le> 1 * ((1 + c) / 2) + 1 * ((1 - c) / 2)"
    using c uw by (intro add_mono mult_right_mono) simp_all
  also have "\<dots> = 1" by (simp add: field_simps)
  finally show ?thesis using e by (simp add: c_def)
qed

lemma tan_deg_lower:
  assumes "0 \<le> a" "a \<le> 14" "a \<le> e" "e < 90"
  shows "a / 72 \<le> tan (deg2rad e)"
proof -
  have "a * pi \<le> 14 * 4"
    using assms(1,2) pi_less_4 by (intro mult_mono) simp_all
  then have r: "0 \<le> deg2rad a" "deg2rad a \<le> 1"
    using assms(1) by (simp_all add: deg2rad_def)
  have "3 * a \<le> pi * a"
    using assms(1) pi_ge_3 by (rule mult_right_mono [rotated])
  then have "a / 72 \<le> 5 * deg2rad a / 6"
    by (simp add: deg2rad_def)
  also have "\<dots> \<le> tan (deg2rad a)" using r by (rule tan_lower)
  also have "\<dots> \<le> tan (deg2rad e)"
  proof (rule tan_mono_le)
    show "- (pi / 2) < deg2rad a" using r(1) pi_ge_3 by linarith
    show "deg2rad a \<le> deg2rad e" using assms(3) by simp
    show "deg2rad e < pi / 2" using assms(4) deg2rad_quadrant(1) by blast
  qed
  finally show ?thesis .
qed

subsection \<open>The calendar\<close>

lemma days_2000: "days_between \<lparr>d_year = 2000, d_month = 1, d_day = 1\<rparr> reference = 36525"
  by (simp add: days_between_def toordinal_def reference_def days_before_year_def
      days_before_month_def DAYS_BEFORE_MONTH_def is_leap_def)

lemma valid_2000: "valid_date 2000 1 1"
  by (simp add: valid_date_def days_in_month_def DAYS_IN_MONTH_def)

subsection \<open>The frame\<close>

lemma frame_ET: "v_ET (solar_locals days hour minute tz lat lon) = ET_at days hour minute tz"
  by (simp add: solar_locals_def ET_at_def Let_def)

lemma frame_SD: "v_SD (solar_locals days hour minute tz lat lon) = SD_at days hour minute tz"
  by (simp add: solar_locals_def SD_at_def Let_def)

lemma frame_TST:
  "v_TST (solar_locals days hour minute tz lat lon) =
     TST hour minute (ET_at days hour minute tz) lon tz"
  by (simp add: solar_locals_def ET_at_def Let_def)

lemma frame_HA:
  "v_HA (solar_locals days hour minute tz lat lon) =
     HA (v_TST (solar_locals days hour minute tz lat lon))"
  by (simp add: solar_locals_def Let_def)

lemma frame_SZA:
  "v_SZA (solar_locals days hour minute tz lat lon) =
     SZA lat (SD_at days hour minute tz) (v_HA (solar_locals days hour minute tz lat lon))"
  by (simp add: solar_locals_def SD_at_def Let_def)

lemma frame_SEA:
  "v_SEA (solar_locals days hour minute tz lat lon) =
     SEA (v_SZA (solar_locals days hour minute tz lat lon))"
  by (simp add: solar_locals_def Let_def)

lemma frame_AAR:
  "v_AAR (solar_locals days hour minute tz lat lon) =
     AAR (v_SEA (solar_locals days hour minute tz lat lon))"
  by (simp add: solar_locals_def Let_def)

lemma frame_SEC_corrected:
  "v_SEC_corrected (solar_locals days hour minute tz lat lon) =
     SEC_corrected (v_SEA (solar_locals days hour minute tz lat lon))
       (v_AAR (solar_locals days hour minute tz lat lon))"
  by (simp add: solar_locals_def Let_def)

lemma frame_SAA:
  "v_SAA (solar_locals days hour minute tz lat lon) =
     SAA lat (v_SZA (solar_locals days hour minute tz lat lon)) (SD_at days hour minute tz)
       (v_HA (solar_locals days hour minute tz lat lon))"
  by (simp add: solar_locals_def SD_at_def Let_def)

lemma frame_HAS:
  "v_HAS (solar_locals days hour minute tz lat lon) = HAS lat (SD_at days hour minute tz)"
  by (simp add: solar_locals_def SD_at_def Let_def)

lemma TST_range: "0 \<le> TST hour minute et lon tz" "TST hour minute et lon tz \<le> 1440"
  unfolding TST_def by (rule np_mod_range; simp)+

lemma HA_of_TST: "0 \<le> t \<Longrightarrow> HA t = t / 4 - 180"
  by (simp add: HA_def)

lemma TST_argument_at_lon_for_TST:
  "v_TST (solar_locals days hour minute tz lat (lon_for_TST days hour minute tz t))
     = np_mod t 1440"
proof -
  have "of_int (hour * 60 + minute) / (24 * 60) * 1440 + ET_at days hour minute tz
          + 4 * lon_for_TST days hour minute tz t - 60 * tz = t"
    by (simp add: lon_for_TST_def field_simps)
  then show ?thesis by (simp add: frame_TST TST_def)
qed

lemma TST_at_lon_for_TST:
  "0 \<le> t \<Longrightarrow> t < 1440 \<Longrightarrow>
   v_TST (solar_locals days hour minute tz lat (lon_for_TST days hour minute tz t)) = t"
  by (simp add: TST_argument_at_lon_for_TST np_mod_small)

lemma SD_finite:
  "SD oc sal = Some (rad2deg (arcsin (sin (deg2rad oc) * sin (deg2rad sal))))"
proof -
  have "\<bar>sin (deg2rad oc) * sin (deg2rad sal)\<bar> \<le> 1 * 1"
    unfolding abs_mult by (intro mult_mono) simp_all
  then show ?thesis by (simp add: SD_def np_arcsin_def abs_le_iff)
qed

lemma SD_range:
  assumes "SD oc sal = Some d"
  shows "- 90 \<le> d" and "d \<le> 90"
proof -
  let ?p = "sin (deg2rad oc) * sin (deg2rad sal)"
  have b: "\<bar>?p\<bar> \<le> 1 * 1"
    unfolding abs_mult by (intro mult_mono) simp_all
  have d: "d = rad2deg (arcsin ?p)" using assms by (simp add: SD_finite)
  have b': "- 1 \<le> ?p" "?p \<le> 1"
    using b by (simp_all add: abs_le_iff)
  have "- (pi / 2) \<le> arcsin ?p" "arcsin ?p \<le> pi / 2"
    using b' by (rule arcsin_lbound, rule arcsin_ubound)
  then have "- (pi / 2) * (180 / pi) \<le> arcsin ?p * (180 / pi)"
     "arcsin ?p * (180 / pi) \<le> pi / 2 * (180 / pi)"
    by (intro mult_right_mono; simp)+
  then show "- 90 \<le> d" and "d \<le> 90" by (simp_all add: d rad2deg_def)
qed

lemma SZA_finite:
  "SZA lat (Some d) ha =
     Some (rad2deg (arccos (sin (deg2rad lat) * sin (deg2rad d)
                            + cos (deg2rad lat) * cos (deg2rad d) * cos (deg2rad ha))))"
  using cosine_rule_bounded [of "deg2rad lat" "deg2rad d" "deg2rad ha"]
  by (simp add: SZA_def np_arccos_def abs_le_iff)

lemma SZA_range:
  assumes "SZA lat sd ha = Some z"
  shows "0 \<le> z" and "z \<le> 180"
proof -
  from assms obtain x where z: "z = rad2deg (arccos x)" and x: "- 1 \<le> x" "x \<le> 1"
    by (auto simp add: SZA_def np_arccos_def split: Option.bind_splits if_splits)
  have "0 \<le> arccos x" "arccos x \<le> pi"
    using x by (simp_all add: arccos_lbound arccos_ubound)
  then have "0 * (180 / pi) \<le> arccos x * (180 / pi)"
     "arccos x * (180 / pi) \<le> pi * (180 / pi)"
    by (intro mult_right_mono; simp)+
  then show "0 \<le> z" and "z \<le> 180" by (simp_all add: z rad2deg_def)
qed

lemma SEA_range:
  assumes "SEA (SZA lat sd ha) = Some e"
  shows "- 90 \<le> e" and "e \<le> 90"
proof -
  from assms obtain z where z: "SZA lat sd ha = Some z" and e: "e = 90 - z"
    by (auto simp add: SEA_def)
  from SZA_range [OF z] e show "- 90 \<le> e" and "e \<le> 90" by simp_all
qed

lemma SD_at_finite:
  obtains d where "SD_at days hour minute tz = Some d" "- 90 \<le> d" "d \<le> 90"
proof -
  obtain oc sal where e: "SD_at days hour minute tz = SD oc sal"
    by (simp add: SD_at_def solar_locals_def Let_def)
  show thesis
    using that [of "rad2deg (arcsin (sin (deg2rad oc) * sin (deg2rad sal)))"]
      SD_range [of oc sal] unfolding e SD_finite by simp
qed

lemma trig_deg_90 [simp]:
  "sin (deg2rad 90) = 1" "cos (deg2rad 90) = 0"
  "sin (deg2rad (- 90)) = - 1" "cos (deg2rad (- 90)) = 0"
  by (simp_all add: deg2rad_def)

subsection \<open>Refraction\<close>

lemma tan_deg_pos: 
  assumes "0 < e" "e < 90" shows "0 < tan (deg2rad e)"
  using assms deg2rad_quadrant by (intro tan_gt_zero) blast+

lemma cot_inverse_tan: "cot x = inverse (tan x)" for x :: real
  by (simp add: cot_def tan_def)

lemma AAR_high: "85 < e \<Longrightarrow> AAR (Some e) = Some 0"
  by (simp add: AAR_def)

lemma AAR_mid:
  assumes "5 < e" "e \<le> 85"
  shows "AAR (Some e) =
     Some ((1 / tan (deg2rad e) - 0.07 / tan (deg2rad e) ^ 3
            + 0.000086 / tan (deg2rad e) ^ 5) / 3600)"
proof -
  have "0 < tan (deg2rad e)" using assms by (intro tan_deg_pos) simp_all
  then have "tan (deg2rad e) \<noteq> 0" by simp
  then show ?thesis using assms by (simp add: AAR_def np_div_def Let_def)
qed

lemma AAR_low:
  "- 0.575 < e \<Longrightarrow> e \<le> 5 \<Longrightarrow>
   AAR (Some e) =
     Some ((1735 + e * (- 518.2 + e * (103.4 + e * (- 12.79 + e * 0.711)))) / 3600)"
  by (simp add: AAR_def)

lemma AAR_neg:
  "e \<le> - 0.575 \<Longrightarrow>
   AAR (Some e) = map_option (\<lambda>a. a / 3600) (np_div (- 20.772) (tan (deg2rad e)))"
  by (simp add: AAR_def)

lemma AAR_spec: "AAR (Some e) = map_option (\<lambda>r. r / 3600) (refraction_spec e)"
proof -
  consider "85 < e" | "5 < e" "e \<le> 85" | "- 0.575 < e" "e \<le> 5" | "e \<le> - 0.575"
    by linarith
  then show ?thesis
  proof cases
    case 1
    then show ?thesis by (simp add: AAR_high refraction_spec_def)
  next
    case 2
    define t where "t = tan (deg2rad e)"
    have c: "cot (deg2rad e) = 1 / t"
      by (simp add: cot_inverse_tan t_def inverse_eq_divide)
    have "1 / t - 0.07 / t ^ 3 + 0.000086 / t ^ 5 =
          1 / t - 0.07 * (1 / t) ^ 3 + 0.000086 * (1 / t) ^ 5"
      by (simp add: power_divide)
    with 2 show ?thesis
      unfolding AAR_mid [OF 2] refraction_spec_def c t_def [symmetric] by simp
  next
    case 3
    then show ?thesis by (simp add: AAR_low refraction_spec_def)
  next
    case 4
    then show ?thesis by (simp add: AAR_neg refraction_spec_def)
  qed
qed

lemma SEC_corrected_spec: "SEC_corrected sea (AAR sea) = corrected_elevation_spec sea"
proof (cases sea)
  case None
  then show ?thesis by (simp add: SEC_corrected_def corrected_elevation_spec_def)
next
  case (Some e)
  show ?thesis
    unfolding Some AAR_spec SEC_corrected_def corrected_elevation_spec_def
    by (cases "refraction_spec e") simp_all
qed

lemma abs_mult_bound:
  fixes x y :: real
  shows "\<bar>x\<bar> \<le> a \<Longrightarrow> \<bar>y\<bar> \<le> b \<Longrightarrow> \<bar>x * y\<bar> \<le> a * b"
  unfolding abs_mult by (rule mult_mono) simp_all

lemma abs_add_bound:
  fixes x k :: real
  shows "\<bar>x\<bar> \<le> m \<Longrightarrow> \<bar>k\<bar> + m \<le> n \<Longrightarrow> \<bar>k + x\<bar> \<le> n"
  by linarith

lemma refraction_poly_bound:
  fixes e :: real
  assumes "\<bar>e\<bar> \<le> 5"
  shows "\<bar>1735 + e * (- 518.2 + e * (103.4 + e * (- 12.79 + e * 0.711)))\<bar> \<le> 9100"
proof -
  have "\<bar>e * 0.711\<bar> \<le> 5 * 0.711" using assms by (rule abs_mult_bound) simp
  then have "\<bar>- 12.79 + e * 0.711\<bar> \<le> 17" by (rule abs_add_bound) simp
  with assms have "\<bar>e * (- 12.79 + e * 0.711)\<bar> \<le> 5 * 17" by (rule abs_mult_bound)
  then have "\<bar>103.4 + e * (- 12.79 + e * 0.711)\<bar> \<le> 189" by (rule abs_add_bound) simp
  with assms have "\<bar>e * (103.4 + e * (- 12.79 + e * 0.711))\<bar> \<le> 5 * 189"
    by (rule abs_mult_bound)
  then have "\<bar>- 518.2 + e * (103.4 + e * (- 12.79 + e * 0.711))\<bar> \<le> 1464"
    by (rule abs_add_bound) simp
  with assms have "\<bar>e * (- 518.2 + e * (103.4 + e * (- 12.79 + e * 0.711)))\<bar> \<le> 5 * 1464"
    by (rule abs_mult_bound)
  then show ?thesis by (rule abs_add_bound) simp
qed

lemma refraction_cot_bound:
  fixes t :: real
  assumes "5 / 72 \<le> t"
  shows "- 210 \<le> 1 / t - 0.07 / t ^ 3 + 0.000086 / t ^ 5"
    and "1 / t - 0.07 / t ^ 3 + 0.000086 / t ^ 5 \<le> 68"
proof -
  define c where "c = 1 / t"
  define c3 where "c3 = c ^ 3"
  define c5 where "c5 = c ^ 5"
  have t: "0 < t" using assms by linarith
  have c: "0 < c" "c \<le> 72 / 5"
    using assms t by (simp_all add: c_def field_simps)
  have "c ^ 3 \<le> (72 / 5) ^ 3" "c ^ 5 \<le> (72 / 5) ^ 5" 
    using c by (simp_all add: power_mono)
  moreover have "(72 / 5 :: real) ^ 3 \<le> 2986" "(72 / 5 :: real) ^ 5 \<le> 619174"
    by (simp_all add: power_divide)
  ultimately have u: "c3 \<le> 2986" "c5 \<le> 619174"
    unfolding c3_def c5_def by linarith+
  have l: "0 \<le> c3" "0 \<le> c5" using c by (simp_all add: c3_def c5_def)
  have e: "1 / t - 0.07 / t ^ 3 + 0.000086 / t ^ 5 = c - 7 / 100 * c3 + 86 / 1000000 * c5"
    by (simp add: c_def c3_def c5_def power_divide)
  show "- 210 \<le> 1 / t - 0.07 / t ^ 3 + 0.000086 / t ^ 5"
    unfolding e using c u l by linarith
  show "1 / t - 0.07 / t ^ 3 + 0.000086 / t ^ 5 \<le> 68"
    unfolding e using c u l by linarith
qed

lemma corrected_elevation_range:
  assumes "- 90 \<le> e" "e \<le> 90" "AAR (Some e) = Some r"
  shows "- 90 \<le> e + r" and "e + r \<le> 90"
proof -
  consider "85 < e" | "5 < e" "e \<le> 85" | "- 0.575 < e" "e \<le> 5" | "e \<le> - 0.575"
    by linarith
  then have "- 90 \<le> e + r \<and> e + r \<le> 90"
  proof cases
    case 1
    then show ?thesis using assms by (simp add: AAR_high)
  next
    case 2
    have t: "5 / 72 \<le> tan (deg2rad e)"
      using 2 by (intro tan_deg_lower) simp_all
    define f where "f = 1 / tan (deg2rad e) - 0.07 / tan (deg2rad e) ^ 3
            + 0.000086 / tan (deg2rad e) ^ 5"
    have r: "r = f / 3600"
      using assms(3) unfolding AAR_mid [OF 2] f_def by simp
    have "- 210 \<le> f" "f \<le> 68"
      unfolding f_def by (rule refraction_cot_bound [OF t])+
    with 2 show ?thesis unfolding r by simp
  next
    case 3
    then have "\<bar>e\<bar> \<le> 5" by simp
    define p where "p = 1735 + e * (- 518.2 + e * (103.4 + e * (- 12.79 + e * 0.711)))"
    have "\<bar>p\<bar> \<le> 9100"
      unfolding p_def using \<open>\<bar>e\<bar> \<le> 5\<close> by (rule refraction_poly_bound)
    moreover have "r = p / 3600"
      using assms(3) unfolding AAR_low [OF 3] p_def by simp
    moreover have "- 1 \<le> e" using 3 by simp
    ultimately show ?thesis using 3(2) by linarith
  next
    case 4
    define t where "t = tan (deg2rad e)"
    from assms(3) have r: "t \<noteq> 0" "r = - 20.772 / t / 3600"
      unfolding AAR_neg [OF 4] t_def by (auto simp add: np_div_def split: if_splits)
    have "e \<noteq> - 90"
    proof
      assume "e = - 90"
      then have "t = 0" by (simp add: t_def deg2rad_def)
      with r(1) show False by simp
    qed
    with assms(1) have "- e < 90" by simp
    with 4 have "0.575 / 72 \<le> tan (deg2rad (- e))"
      by (intro tan_deg_lower) simp_all
    then have t: "t \<le> - (575 / 72000)" by (simp add: t_def deg2rad_minus)
    then have "- t * (20.772 / (- t)) \<le> - t * 2602" "0 < - t"
      by (simp_all add: field_simps)
    then have "0 \<le> 20.772 / (- t)" "20.772 / (- t) \<le> 2602"
      by (simp_all add: field_simps)
    then have "0 \<le> 20.772 / (- t) / 3600" "20.772 / (- t) / 3600 \<le> 1"
      by simp_all
    moreover have "r = 20.772 / (- t) / 3600" using r by simp
    moreover have "e \<le> 0" using 4 by simp
    ultimately show ?thesis using assms(1) by linarith
  qed
  then show "- 90 \<le> e + r" and "e + r \<le> 90" by simp_all
qed

subsection \<open>Azimuth and the returned pair\<close>

lemma SAA_spec: "SAA lat sza sd ha = azimuth_spec ha (azimuth_ratio_spec lat sza sd)"
  by (simp add: SAA_def azimuth_spec_def azimuth_ratio_spec_def Let_def
      split: Option.bind_split)

lemma SAA_range:
  assumes "SAA lat sza sd ha = Some a"
  shows "0 \<le> a" and "a < 360"
proof -
  from assms obtain q b where b: "np_arccos q = Some b"
    and a: "a = np_mod (rad2deg b + 180) 360 \<or> a = np_mod (540 - rad2deg b) 360"
    by (auto simp add: SAA_def Let_def split: Option.bind_splits if_splits)
  from b have "0 \<le> b" "b \<le> pi"
    by (auto simp add: np_arccos_def arccos_lbound arccos_ubound split: if_splits)
  then have "0 * (180 / pi) \<le> b * (180 / pi)" "b * (180 / pi) \<le> pi * (180 / pi)"
    by (intro mult_right_mono; simp)+
  then have "0 \<le> rad2deg b" "rad2deg b \<le> 180" by (simp_all add: rad2deg_def)
  then have "0 \<le> rad2deg b + 180" "0 \<le> 540 - rad2deg b" by simp_all
  then have "np_mod (rad2deg b + 180) 360 < 360" "np_mod (540 - rad2deg b) 360 < 360"
    by (intro np_mod_less; simp)+
  with a show "a < 360" by auto
  from a show "0 \<le> a" by (auto simp add: np_mod_range)
qed

lemma solar_angle_valid:
  "valid_date year month day \<Longrightarrow>
   solar_angle year month day hour minute tz lat lon =
     Inr (v_SEC_corrected (solar_locals
            (days_between \<lparr>d_year = year, d_month = month, d_day = day\<rparr> reference)
            hour minute tz lat lon),
          v_SAA (solar_locals
            (days_between \<lparr>d_year = year, d_month = month, d_day = day\<rparr> reference)
            hour minute tz lat lon))"
  by (simp add: solar_angle_def datetime_def Let_def)

lemma solar_angle_Inr:
  assumes "solar_angle year month day hour minute tz lat lon = Inr (e, a)"
  obtains days where "e = v_SEC_corrected (solar_locals days hour minute tz lat lon)"
    and "a = v_SAA (solar_locals days hour minute tz lat lon)"
  using assms by (auto simp add: solar_angle_def Let_def split: sum.splits)

lemma frame_at_six:
  "v_SEC_corrected (solar_locals 36525 6 0 0 0 (lon_for_TST 36525 6 0 0 360))
     = Some (1735 / 3600)"
  "v_SAA (solar_locals 36525 6 0 0 0 (lon_for_TST 36525 6 0 0 360)) = Some azimuth_at_six"
proof -
  let ?v = "solar_locals 36525 6 0 0 0 (lon_for_TST 36525 6 0 0 360)"
  obtain d where d: "SD_at 36525 6 0 0 = Some d" by (rule SD_at_finite)
  have ha: "v_HA ?v = - 90"
    by (simp add: frame_HA TST_at_lon_for_TST HA_def)
  have z: "v_SZA ?v = Some 90"
    unfolding frame_SZA ha d SZA_finite by (simp add: rad2deg_def)
  have s: "v_SEA ?v = Some 0"
    unfolding frame_SEA z by (simp add: SEA_def)
  have r: "v_AAR ?v = Some (1735 / 3600)"
    unfolding frame_AAR s by (simp add: AAR_low)
  show "v_SEC_corrected ?v = Some (1735 / 3600)"
    unfolding frame_SEC_corrected s r by (simp add: SEC_corrected_def)
  show "v_SAA ?v = Some azimuth_at_six"
    unfolding frame_SAA ha d z azimuth_at_six_def
    by (simp add: SAA_def np_div_def np_arccos_def Let_def)
qed

subsection \<open>The frame at noon of 2000-01-01\<close>

lemma deg2rad_add: "deg2rad (x + y) = deg2rad x + deg2rad y"
  by (simp add: deg2rad_def algebra_simps)

lemma SZA_noon:
  assumes "0 \<le> x" "x \<le> 180"
  shows "SZA (d + x) (Some d) 0 = Some x"
proof -
  have "sin (deg2rad (d + x)) * sin (deg2rad d)
        + cos (deg2rad (d + x)) * cos (deg2rad d) * cos (deg2rad 0)
        = cos (deg2rad (d + x) - deg2rad d)"
    by (simp add: cos_diff)
  also have "\<dots> = cos (deg2rad x)" by (simp add: deg2rad_add)
  finally have e: "sin (deg2rad (d + x)) * sin (deg2rad d)
        + cos (deg2rad (d + x)) * cos (deg2rad d) * cos (deg2rad 0) = cos (deg2rad x)" .
  have "0 \<le> deg2rad x" "deg2rad x \<le> pi"
    using assms by (simp_all add: deg2rad_def)
  then have "arccos (cos (deg2rad x)) = deg2rad x" by (rule arccos_cos)
  then show ?thesis unfolding SZA_finite e by simp
qed

lemma frame_at_noon:
  assumes "0 \<le> x" "x \<le> 180"
  shows "v_SEA (solar_locals 36525 12 0 0 (noon_declination + x) noon_lon) = Some (90 - x)"
proof -
  let ?v = "solar_locals 36525 12 0 0 (noon_declination + x) noon_lon"
  obtain d where "SD_at 36525 12 0 0 = Some d" by (rule SD_at_finite)
  then have d: "SD_at 36525 12 0 0 = Some noon_declination"
    by (simp add: noon_declination_def)
  have ha: "v_HA ?v = 0"
    by (simp add: frame_HA noon_lon_def TST_at_lon_for_TST HA_def)
  have "v_SZA ?v = Some x"
    unfolding frame_SZA ha d using assms by (rule SZA_noon)
  then show ?thesis unfolding frame_SEA by (simp add: SEA_def)
qed

lemma elevation_at_noon:
  assumes "0 \<le> x" "x \<le> 180"
  shows "map_sum id fst (solar_angle 2000 1 1 12 0 0 (noon_declination + x) noon_lon)
         = Inr (SEC_corrected (Some (90 - x)) (AAR (Some (90 - x))))"
  by (simp add: solar_angle_valid valid_2000 days_2000 frame_SEC_corrected frame_AAR
      frame_at_noon [OF assms])

lemma julian_century_J2000: "julian_century (julian_day 36525 12 0 0) = 0"
  by (simp add: julian_day_def julian_century_def)

lemma SD_at_J2000:
  "SD_at 36525 12 0 0 = SD (OC 0 (MOE 0)) (SAL 0 (STL (GMLS 0) (SEC 0 (GMAS 0))))"
  by (simp add: SD_at_def solar_locals_def Let_def julian_century_J2000)

lemma OC_J2000: "23 \<le> OC 0 (MOE 0)" "OC 0 (MOE 0) \<le> 24"
proof -
  define c where "c = cos (deg2rad (125.04 - 1934.136 * 0))"
  have c: "- 1 \<le> c" "c \<le> 1" by (simp_all add: c_def)
  have "OC 0 (MOE 0) = 84381448 / 3600000 + 256 / 100000 * c"
    unfolding OC_def MOE_def c_def by simp
  with c show "23 \<le> OC 0 (MOE 0)" "OC 0 (MOE 0) \<le> 24" by linarith+
qed

lemma SAL_J2000:
  "278 \<le> SAL 0 (STL (GMLS 0) (SEC 0 (GMAS 0)))" "SAL 0 (STL (GMLS 0) (SEC 0 (GMAS 0))) \<le> 283"
proof -
  define s1 s2 s3 s4 where "s1 = sin (deg2rad (GMAS 0))" and "s2 = sin (deg2rad (2 * GMAS 0))"
    and "s3 = sin (deg2rad (3 * GMAS 0))" and "s4 = sin (deg2rad (125.04 - 1934.136 * 0))"
  have s: "- 1 \<le> s1" "s1 \<le> 1" "- 1 \<le> s2" "s2 \<le> 1" "- 1 \<le> s3" "s3 \<le> 1"
    "- 1 \<le> s4" "s4 \<le> 1"
    by (simp_all add: s1_def s2_def s3_def s4_def)
  have g: "GMLS 0 = 28046646 / 100000"
    unfolding GMLS_def by (simp add: np_mod_small)
  have "SAL 0 (STL (GMLS 0) (SEC 0 (GMAS 0))) =
        28046646 / 100000 + (s1 * (1914602 / 1000000) + s2 * (19993 / 1000000)
          + s3 * (289 / 1000000)) - 569 / 100000 - 478 / 100000 * s4"
    unfolding SAL_def STL_def SEC_def g s1_def s2_def s3_def s4_def by simp
  with s show "278 \<le> SAL 0 (STL (GMLS 0) (SEC 0 (GMAS 0)))"
    "SAL 0 (STL (GMLS 0) (SEC 0 (GMAS 0))) \<le> 283" by linarith+
qed


lemma cos_lower:
  fixes z :: real
  shows "1 - z\<^sup>2 / 2 \<le> cos z"
proof -
  have "\<bar>sin (z / 2)\<bar> \<le> \<bar>z / 2\<bar>" by (rule abs_sin_x_le_abs_x)
  then have "\<bar>sin (z / 2)\<bar> ^ 2 \<le> \<bar>z / 2\<bar> ^ 2" by (rule power_mono) simp
  then have "sin (z / 2) ^ 2 \<le> z\<^sup>2 / 4" by (simp add: power_divide)
  moreover have "cos z = 1 - 2 * sin (z / 2) ^ 2"
    using cos_double_sin [of "z / 2"] by simp
  ultimately show ?thesis by linarith
qed

lemma sin_near_270:
  assumes "278 \<le> sal" "sal \<le> 283"
  shows "sin (deg2rad sal) \<le> - (19 / 20)"
proof -
  define z where "z = deg2rad (sal - 270)"
  have "(sal - 270) * pi \<le> 13 * 4"
    using assms pi_less_4 by (intro mult_mono) simp_all
  then have z: "0 \<le> z" "z \<le> 3 / 10"
    using assms by (simp_all add: z_def deg2rad_def mult.commute)
  then have "z\<^sup>2 \<le> (3 / 10)\<^sup>2" by (intro power_mono)
  then have "z\<^sup>2 \<le> 1 / 10" by (simp add: power_divide)
  with cos_lower [of z] have c: "19 / 20 \<le> cos z" by linarith
  have "deg2rad sal = z + 3 / 2 * pi"
    by (simp add: z_def deg2rad_def field_simps)
  then have "sin (deg2rad sal) = - cos z"
    by (simp only: sin_add sin_3over2_pi cos_3over2_pi; simp)
  with c show ?thesis by linarith
qed

lemma SD_below_horizon:
  assumes "23 \<le> oc" "oc \<le> 24" "278 \<le> sal" "sal \<le> 283"
  obtains d where "SD oc sal = Some d" "- 90 < d" "d < - 10"
proof -
  define A where "A = sin (deg2rad oc)"
  define B where "B = sin (deg2rad sal)"
  define y where "y = arcsin (A * B)"
  have "oc * pi \<le> 24 * 4" using assms pi_less_4 by (intro mult_mono) simp_all
  moreover have "23 * 3 \<le> oc * pi" using assms pi_ge_3 by (intro mult_mono) simp_all
  ultimately have r: "23 / 60 \<le> deg2rad oc" "deg2rad oc \<le> 8 / 15"
    by (simp_all add: deg2rad_def mult.commute)
  then have "5 * deg2rad oc / 6 \<le> A" unfolding A_def by (intro sin_lower) simp_all
  moreover have "A \<le> deg2rad oc" unfolding A_def using r by (intro sin_x_le_x) simp
  ultimately have A: "3 / 10 \<le> A" "A \<le> 8 / 15" using r by linarith+
  have B: "- 1 \<le> B" "B \<le> - (19 / 20)"
    unfolding B_def using assms(3,4) by (simp_all add: sin_near_270)
  define q where "q = A * B"
  have "A * (19 / 20) \<le> A * (- B)" "A * (- B) \<le> A * 1"
    using A B by (intro mult_left_mono; simp)+
  then have "A * (19 / 20) \<le> - q" "- q \<le> A" by (simp_all add: q_def)
  then have "- (8 / 15) \<le> q" "q \<le> - (57 / 200)" using A by linarith+
  then have p: "- (8 / 15) \<le> A * B" "A * B \<le> - (57 / 200)" by (simp_all add: q_def)
  then have p1: "- 1 < A * B" "A * B < 1" "- 1 \<le> A * B" "A * B \<le> 1" "A * B \<le> 0"
    by linarith+
  have y1: "- (pi / 2) < y" unfolding y_def using p1(1,2) arcsin_lt_bounded by blast
  have "y \<le> arcsin 0" unfolding y_def using p1(3) p1(5) by (intro arcsin_le_arcsin) simp_all
  then have y0: "y \<le> 0" by simp
  have "sin y = A * B" unfolding y_def using p1(3,4) by simp
  moreover have "sin (- y) \<le> - y" using y0 by (intro sin_x_le_x) simp
  ultimately have y2: "y \<le> - (57 / 200)" using p(2) by simp
  have "pi * 45 \<le> 180" using pi_less_4 by simp
  then have k: "45 \<le> 180 / pi" by (simp add: field_simps)
  have "(- y) * 45 \<le> (- y) * (180 / pi)" using y0 k by (intro mult_left_mono) simp_all
  then have "y * (180 / pi) \<le> y * 45" by simp
  with y2 have d1: "rad2deg y < - 10" unfolding rad2deg_def by linarith
  have "- (pi / 2) * (180 / pi) < y * (180 / pi)"
    using y1 by (intro mult_strict_right_mono) simp_all
  then have d2: "- 90 < rad2deg y" unfolding rad2deg_def by simp
  show thesis
    using that [of "rad2deg y"] d1 d2 unfolding SD_finite y_def A_def B_def by simp
qed

lemma noon_declination_J2000:
  "SD_at 36525 12 0 0 = Some noon_declination" "- 90 < noon_declination"
  "noon_declination < - 10"
proof -
  obtain d where d: "SD_at 36525 12 0 0 = Some d" "- 90 < d" "d < - 10"
    unfolding SD_at_J2000 using OC_J2000 SAL_J2000 by (rule SD_below_horizon)
  then show "SD_at 36525 12 0 0 = Some noon_declination" "- 90 < noon_declination"
    "noon_declination < - 10"
    by (simp_all add: noon_declination_def)
qed

lemma HAS_pole: "HAS 90 sd = None"
  by (cases sd) (simp_all add: HAS_def np_div_def)

lemma SZA_pole:
  assumes "- 90 \<le> d" "d \<le> 90"
  shows "SZA 90 (Some d) ha = Some (90 - d)"
proof -
  have "0 \<le> deg2rad (90 - d)" "deg2rad (90 - d) \<le> pi"
    using assms by (simp_all add: deg2rad_def)
  then have "arccos (cos (deg2rad (90 - d))) = deg2rad (90 - d)" by (rule arccos_cos)
  moreover have "deg2rad (90 - d) = pi / 2 - deg2rad d"
    by (simp add: deg2rad_def field_simps)
  ultimately have "arccos (sin (deg2rad d)) = deg2rad (90 - d)"
    by (simp add: sin_cos_eq)
  then show ?thesis unfolding SZA_finite by simp
qed

lemma AAR_finite:
  assumes "- 90 < e" "e \<le> 90"
  shows "AAR (Some e) \<noteq> None"
proof -
  consider "85 < e" | "5 < e" "e \<le> 85" | "- 0.575 < e" "e \<le> 5" | "e \<le> - 0.575"
    by linarith
  then show ?thesis
  proof cases
    case 1
    then show ?thesis by (simp add: AAR_high)
  next
    case 2
    then show ?thesis by (simp add: AAR_mid)
  next
    case 3
    then show ?thesis by (simp add: AAR_low)
  next
    case 4
    then have "e < 0" by simp
    then have "deg2rad e < 0" using deg2rad_quadrant(4) by blast
    moreover have "- (pi / 2) < deg2rad e" using assms(1) deg2rad_quadrant(2) by blast
    ultimately have "tan (deg2rad e) < 0" by (intro tan_less_zero) simp_all
    then have "tan (deg2rad e) \<noteq> 0" by simp
    then show ?thesis unfolding AAR_neg [OF 4] by (simp add: np_div_def)
  qed
qed

section \<open>The claims\<close>

subsection \<open>Hour angle\<close>

text \<open>
  Claim C4, as amended. For every frame the hour angle is
  \<open>TST/4 + 180\<close> when \<open>TST/4 < 0\<close> and \<open>TST/4 - 180\<close> otherwise, and it
  lies in the closed interval \<open>[-180, 180]\<close>: the end \<open>-180\<close>, which the claim
  excludes, belongs to the range.
\<close>

theorem hour_angle_branch_and_range:
  "v_HA (solar_locals days hour minute tz lat lon) =
     (if v_TST (solar_locals days hour minute tz lat lon) / 4 < 0
      then v_TST (solar_locals days hour minute tz lat lon) / 4 + 180
      else v_TST (solar_locals days hour minute tz lat lon) / 4 - 180) \<and>
   - 180 \<le> v_HA (solar_locals days hour minute tz lat lon) \<and>
   v_HA (solar_locals days hour minute tz lat lon) \<le> 180"
proof -
  let ?v = "solar_locals days hour minute tz lat lon"
  have t: "0 \<le> v_TST ?v" "v_TST ?v \<le> 1440"
    unfolding frame_TST by (rule TST_range)+
  have "v_HA ?v = v_TST ?v / 4 - 180"
    unfolding frame_HA using t(1) by (rule HA_of_TST)
  with t show ?thesis by (simp add: frame_HA HA_def)
qed

text \<open>
  Claim C4 as stated fails: on 2000-01-01 at 00:00 with \<open>tz = 0\<close>, at the longitude
  \<open>- ET / 4\<close> where the true solar time is \<open>0\<close>, the hour angle is \<open>-180\<close>,
  outside \<open>(-180, 180]\<close>.
\<close>

theorem hour_angle_minus_180_counterexample:
  "v_HA (solar_locals (days_between \<lparr>d_year = 2000, d_month = 1, d_day = 1\<rparr> reference)
           0 0 0 0 (lon_for_TST 36525 0 0 0 0)) = - 180 \<and>
   \<not> (- 180 < v_HA (solar_locals
           (days_between \<lparr>d_year = 2000, d_month = 1, d_day = 1\<rparr> reference)
           0 0 0 0 (lon_for_TST 36525 0 0 0 0)))"
  by (simp add: days_2000 frame_HA TST_at_lon_for_TST HA_def)

text \<open>
  Claim C9, as amended. For every frame the true solar time is non-negative, so the test
  \<open>TST/4 < 0\<close> is false and the first branch is never taken: the hour angle is
  \<open>TST/4 - 180\<close>. The true solar time lies in \<open>[0, 1440]\<close> and the hour angle in
  \<open>[-180, 180]\<close>; the hour angle is \<open>-180\<close> when the true solar time is \<open>0\<close>
  and \<open>180\<close> when it is \<open>1440\<close>.
\<close>

theorem true_solar_time_nonnegative:
  "0 \<le> v_TST (solar_locals days hour minute tz lat lon) \<and>
   v_TST (solar_locals days hour minute tz lat lon) \<le> 1440 \<and>
   \<not> v_TST (solar_locals days hour minute tz lat lon) / 4 < 0 \<and>
   v_HA (solar_locals days hour minute tz lat lon) =
     v_TST (solar_locals days hour minute tz lat lon) / 4 - 180 \<and>
   - 180 \<le> v_HA (solar_locals days hour minute tz lat lon) \<and>
   v_HA (solar_locals days hour minute tz lat lon) \<le> 180 \<and>
   (v_TST (solar_locals days hour minute tz lat lon) = 0 \<longrightarrow>
      v_HA (solar_locals days hour minute tz lat lon) = - 180) \<and>
   (v_TST (solar_locals days hour minute tz lat lon) = 1440 \<longrightarrow>
      v_HA (solar_locals days hour minute tz lat lon) = 180)"
proof -
  let ?v = "solar_locals days hour minute tz lat lon"
  have t: "0 \<le> v_TST ?v" "v_TST ?v \<le> 1440"
    unfolding frame_TST by (rule TST_range)+
  have h: "v_HA ?v = v_TST ?v / 4 - 180"
    unfolding frame_HA using t(1) by (rule HA_of_TST)
  show ?thesis using t h by auto
qed

theorem true_solar_time_nonnegative_witness:
  "v_TST (solar_locals 36525 0 0 0 40 (lon_for_TST 36525 0 0 0 0)) = 0 \<and>
   v_HA (solar_locals 36525 0 0 0 40 (lon_for_TST 36525 0 0 0 0)) = - 180 \<and>
   v_TST (solar_locals 36525 0 0 0 40 (lon_for_TST 36525 0 0 0 (- (1 / 2 ^ 51)))) = 1440 \<and>
   v_HA (solar_locals 36525 0 0 0 40 (lon_for_TST 36525 0 0 0 (- (1 / 2 ^ 51)))) = 180"
proof -
  have a: "v_TST (solar_locals 36525 0 0 0 40 (lon_for_TST 36525 0 0 0 0)) = 0"
    by (simp add: TST_at_lon_for_TST)
  have b: "v_TST (solar_locals 36525 0 0 0 40 (lon_for_TST 36525 0 0 0 (- (1 / 2 ^ 51))))
             = 1440"
    unfolding TST_argument_at_lon_for_TST by (rule np_mod_rounds_up)
  from true_solar_time_nonnegative [of 36525 0 0 0 40 "lon_for_TST 36525 0 0 0 0"]
    true_solar_time_nonnegative [of 36525 0 0 0 40 "lon_for_TST 36525 0 0 0 (- (1 / 2 ^ 51))"]
  show ?thesis using a b by simp
qed

text \<open>
  Claim C9 as stated fails, in its upper bound. On 2000-01-01 at 00:00 with \<open>tz = 0\<close>,
  at the longitude where the argument of \<open>np.mod\<close> is \<open>- 1 / 2 ^ 51\<close> (about
  \<open>-4.44e-16\<close>), \<open>np.mod\<close> returns \<open>1440\<close>: the hour angle is \<open>180\<close>, which
  the claim says is never attained.
\<close>

theorem hour_angle_180_counterexample:
  "v_TST (solar_locals (days_between \<lparr>d_year = 2000, d_month = 1, d_day = 1\<rparr> reference)
            0 0 0 0 (lon_for_TST 36525 0 0 0 (- (1 / 2 ^ 51)))) = 1440 \<and>
   v_HA (solar_locals (days_between \<lparr>d_year = 2000, d_month = 1, d_day = 1\<rparr> reference)
           0 0 0 0 (lon_for_TST 36525 0 0 0 (- (1 / 2 ^ 51)))) = 180 \<and>
   \<not> (v_HA (solar_locals
           (days_between \<lparr>d_year = 2000, d_month = 1, d_day = 1\<rparr> reference)
           0 0 0 0 (lon_for_TST 36525 0 0 0 (- (1 / 2 ^ 51)))) < 180)"
proof -
  have "v_TST (solar_locals 36525 0 0 0 0 (lon_for_TST 36525 0 0 0 (- (1 / 2 ^ 51)))) = 1440"
    unfolding TST_argument_at_lon_for_TST by (rule np_mod_rounds_up)
  then show ?thesis by (simp add: days_2000 frame_HA HA_def)
qed

subsection \<open>Invalid dates\<close>

text \<open>
  Claim C7. When \<open>(year, month, day)\<close> is not a date of the calendar,
  \<open>solar_angle\<close> raises the \<open>ValueError\<close> of the \<open>datetime\<close> constructor,
  whatever the other five arguments are: nothing else of the function is evaluated.
\<close>

theorem invalid_date_raises:
  "\<not> valid_date year month day \<Longrightarrow>
   solar_angle year month day hour minute tz lat lon = Inl ValueError"
  by (simp add: solar_angle_def datetime_def)

theorem invalid_date_raises_witness:
  "\<not> valid_date 2021 13 1 \<and> solar_angle 2021 13 1 12 0 0 40 (- 105) = Inl ValueError \<and>
   \<not> valid_date 2021 2 30 \<and> solar_angle 2021 2 30 12 0 0 40 (- 105) = Inl ValueError"
proof -
  have a: "\<not> valid_date 2021 13 1"
    by (simp add: valid_date_def)
  have b: "\<not> valid_date 2021 2 30"
    by (simp add: valid_date_def days_in_month_def DAYS_IN_MONTH_def is_leap_def)
  show ?thesis
    using a b invalid_date_raises [OF a, of 12 0 0 40 "- 105"]
      invalid_date_raises [OF b, of 12 0 0 40 "- 105"]
    by simp
qed

subsection \<open>The sunrise and sunset block\<close>

text \<open>
  Claim C10. The pair returned by \<open>solar_angle\<close> does not depend on the block that
  computes \<open>HAS\<close>, \<open>SN\<close>, \<open>SrT\<close>, \<open>SsT\<close> and \<open>SlD\<close>: the function with
  these five assignments deleted returns the same result on every input, so a non-finite
  \<open>HAS\<close> never reaches the returned values.
\<close>

theorem sun_times_block_is_dead:
  "solar_angle year month day hour minute tz lat lon =
   solar_angle_without_sun_times year month day hour minute tz lat lon"
  by (simp add: solar_angle_def solar_angle_without_sun_times_def solar_locals_def Let_def
      split: sum.split)

subsection \<open>Refraction and azimuth as the specification words them\<close>

text \<open>
  Claim C2. In every frame the refraction correction \<open>AAR\<close> is the four-way function
  of the raw elevation of the specification, in arcseconds, divided by 3600; and the
  elevation that \<open>solar_angle\<close> returns (or the error it raises) is the raw elevation
  of its frame plus that correction.
\<close>

theorem refraction_is_four_way:
  "v_AAR (solar_locals days hour minute tz lat lon) =
     Option.bind (v_SEA (solar_locals days hour minute tz lat lon))
       (\<lambda>e. map_option (\<lambda>r. r / 3600) (refraction_spec e)) \<and>
   map_sum id fst (solar_angle year month day hour minute tz lat lon) =
   map_sum id
     (\<lambda>dt. corrected_elevation_spec
             (v_SEA (solar_locals (days_between dt reference) hour minute tz lat lon)))
     (datetime year month day)"
proof -
  have "v_AAR (solar_locals days hour minute tz lat lon) =
     Option.bind (v_SEA (solar_locals days hour minute tz lat lon))
       (\<lambda>e. map_option (\<lambda>r. r / 3600) (refraction_spec e))"
    unfolding frame_AAR
    by (cases "v_SEA (solar_locals days hour minute tz lat lon)")
      (simp_all add: AAR_spec, simp add: AAR_def)
  moreover have "map_sum id fst (solar_angle year month day hour minute tz lat lon) =
   map_sum id
     (\<lambda>dt. corrected_elevation_spec
             (v_SEA (solar_locals (days_between dt reference) hour minute tz lat lon)))
     (datetime year month day)"
    by (simp add: solar_angle_def Let_def frame_SEC_corrected frame_AAR SEC_corrected_spec
        split: sum.split)
  ultimately show ?thesis by (rule conjI)
qed

text \<open>
  Claim C5. The azimuth that \<open>solar_angle\<close> returns (or the error it raises) is the
  two-way branch of the specification on the sign of the hour angle of its frame, applied
  to the ratio built from the latitude, the zenith angle and the declination.
\<close>

theorem azimuth_is_two_way_branch:
  "map_sum id snd (solar_angle year month day hour minute tz lat lon) =
   map_sum id
     (\<lambda>dt. let v = solar_locals (days_between dt reference) hour minute tz lat lon
           in azimuth_spec (v_HA v) (azimuth_ratio_spec lat (v_SZA v) (v_SD v)))
     (datetime year month day)"
  by (simp add: solar_angle_def Let_def frame_SAA frame_SD SAA_spec split: sum.split)

subsection \<open>Ranges of the outputs\<close>

text \<open>
  Claim C6. Whenever \<open>solar_angle\<close> returns two finite numbers, which is what it
  does unless a divisor is zero or an inverse trigonometric argument leaves
  \<open>[-1, 1]\<close>, the elevation lies in \<open>[-90, 90]\<close> and the azimuth in
  \<open>[0, 360)\<close>.
\<close>

theorem outputs_in_range:
  assumes "solar_angle year month day hour minute tz lat lon = Inr (Some e, Some a)"
  shows "- 90 \<le> e \<and> e \<le> 90 \<and> 0 \<le> a \<and> a < 360"
proof -
  from assms obtain days
    where e: "v_SEC_corrected (solar_locals days hour minute tz lat lon) = Some e"
      and a: "v_SAA (solar_locals days hour minute tz lat lon) = Some a"
    by (elim solar_angle_Inr) simp
  let ?v = "solar_locals days hour minute tz lat lon"
  from e obtain s r where s: "v_SEA ?v = Some s" and r: "AAR (Some s) = Some r"
    and sr: "e = s + r"
    unfolding frame_SEC_corrected frame_AAR
    by (auto simp add: SEC_corrected_def split: Option.bind_splits)
  from s have "- 90 \<le> s" "s \<le> 90"
    unfolding frame_SEA frame_SZA by (rule SEA_range)+
  then have "- 90 \<le> e" "e \<le> 90"
    unfolding sr using r by (rule corrected_elevation_range)+
  moreover from a have "0 \<le> a" "a < 360"
    unfolding frame_SAA by (rule SAA_range)+
  ultimately show ?thesis by simp
qed

theorem outputs_in_range_witness:
  "solar_angle 2000 1 1 6 0 0 0 (lon_for_TST 36525 6 0 0 360)
     = Inr (Some (1735 / 3600), Some azimuth_at_six) \<and>
   - 90 \<le> (1735 / 3600 :: real) \<and> (1735 / 3600 :: real) \<le> 90 \<and>
   0 \<le> azimuth_at_six \<and> azimuth_at_six < 360"
proof -
  have h: "solar_angle 2000 1 1 6 0 0 0 (lon_for_TST 36525 6 0 0 360)
     = Inr (Some (1735 / 3600), Some azimuth_at_six)"
    by (simp add: solar_angle_valid valid_2000 days_2000 frame_at_six)
  from outputs_in_range [OF h] h show ?thesis by simp
qed

subsection \<open>Continuity of the refraction correction\<close>

text \<open>
  Claim C1 asks for a corrected elevation that is continuous across the boundaries of the
  refraction formula. At the boundary of 5 degrees the function is not: on 2000-01-01 at
  12:00, at the longitude where the hour angle is \<open>0\<close>, the latitude
  \<open>noon_declination + 85\<close> has the raw elevation \<open>5\<close> and the latitude
  \<open>noon_declination + 84.9999\<close> the raw elevation \<open>5.0001\<close>. The corrected
  elevation returned is above \<open>5.15\<close> at the first and below \<open>5.02\<close> at the
  second: raising the Sun by a ten-thousandth of a degree lowers the result by more than
  an eighth of a degree.
\<close>

theorem refraction_jump_at_5_degrees:
  "SD_at 36525 12 0 0 = Some noon_declination \<and>
   map_sum id fst (solar_angle 2000 1 1 12 0 0 (noon_declination + 85) noon_lon)
     = Inr (Some (5 + 574.625 / 3600)) \<and>
   map_sum id fst (solar_angle 2000 1 1 12 0 0 (noon_declination + 84.9999) noon_lon)
     = Inr (Some (5.0001 + (1 / tan (deg2rad 5.0001) - 0.07 / tan (deg2rad 5.0001) ^ 3
                            + 0.000086 / tan (deg2rad 5.0001) ^ 5) / 3600)) \<and>
   5.0001 + (1 / tan (deg2rad 5.0001) - 0.07 / tan (deg2rad 5.0001) ^ 3
             + 0.000086 / tan (deg2rad 5.0001) ^ 5) / 3600 < 5.02 \<and>
   (5.15 :: real) < 5 + 574.625 / 3600"
proof -
  have a: "map_sum id fst (solar_angle 2000 1 1 12 0 0 (noon_declination + 85) noon_lon)
     = Inr (Some (5 + 574.625 / 3600))"
    by (simp add: elevation_at_noon AAR_low SEC_corrected_def)
  define e1 :: real where "e1 = 5.0001"
  define f :: real where "f = 1 / tan (deg2rad e1) - 0.07 / tan (deg2rad e1) ^ 3
            + 0.000086 / tan (deg2rad e1) ^ 5"
  have m: "5 < e1" "e1 \<le> 85" by (simp_all add: e1_def)
  have r: "AAR (Some e1) = Some (f / 3600)"
    unfolding f_def by (rule AAR_mid [OF m])
  have e: "(90 :: real) - 84.9999 = e1" by (simp add: e1_def)
  have "map_sum id fst (solar_angle 2000 1 1 12 0 0 (noon_declination + 84.9999) noon_lon)
     = Inr (SEC_corrected (Some (90 - 84.9999)) (AAR (Some (90 - 84.9999))))"
    by (rule elevation_at_noon) simp_all
  then have b: "map_sum id fst
      (solar_angle 2000 1 1 12 0 0 (noon_declination + 84.9999) noon_lon)
     = Inr (Some (e1 + f / 3600))"
    unfolding e r by (simp add: SEC_corrected_def)
  have "5 / 72 \<le> tan (deg2rad e1)"
    using m by (intro tan_deg_lower) simp_all
  then have "f \<le> 68" unfolding f_def by (rule refraction_cot_bound)
  then have c: "e1 + f / 3600 < 5.02"
    by (simp add: e1_def)
  have d: "(5.15 :: real) < 5 + 574.625 / 3600" by simp
  show ?thesis
    using noon_declination_J2000(1) a b c d unfolding f_def e1_def by (intro conjI)
qed

subsection \<open>The North Pole\<close>

text \<open>
  Claim C3, as amended. At latitude 90, on a valid date, the hour-angle span \<open>HAS\<close>
  is not a finite number; \<open>solar_angle\<close> raises nothing, and the elevation it
  returns is a finite number that does not depend on \<open>HAS\<close>: it is the
  declination, when the declination is above \<open>-90\<close>, corrected for refraction.
\<close>

theorem north_pole_elevation_is_finite:
  assumes "valid_date year month day"
    and "SD_at (days_between \<lparr>d_year = year, d_month = month, d_day = day\<rparr> reference)
           hour minute tz = Some d"
    and "- 90 < d"
  shows "v_HAS (solar_locals
           (days_between \<lparr>d_year = year, d_month = month, d_day = day\<rparr> reference)
           hour minute tz 90 lon) = None \<and>
         (\<exists>e. map_sum id fst (solar_angle year month day hour minute tz 90 lon)
                = Inr (Some e) \<and>
              Some e = SEC_corrected (Some d) (AAR (Some d)))"
proof -
  let ?days = "days_between \<lparr>d_year = year, d_month = month, d_day = day\<rparr> reference"
  let ?v = "solar_locals ?days hour minute tz 90 lon"
  obtain d' where "SD_at ?days hour minute tz = Some d'" "- 90 \<le> d'" "d' \<le> 90"
    by (rule SD_at_finite)
  with assms(2) have d: "- 90 \<le> d" "d \<le> 90" by simp_all
  have has: "v_HAS ?v = None" unfolding frame_HAS by (rule HAS_pole)
  have "v_SZA ?v = Some (90 - d)"
    unfolding frame_SZA assms(2) using d by (rule SZA_pole)
  then have sea: "v_SEA ?v = Some d" unfolding frame_SEA by (simp add: SEA_def)
  obtain r where r: "AAR (Some d) = Some r"
    using AAR_finite [OF assms(3) d(2)] by (cases "AAR (Some d)") simp_all
  have "map_sum id fst (solar_angle year month day hour minute tz 90 lon)
        = Inr (SEC_corrected (Some d) (AAR (Some d)))"
    using assms(1) by (simp add: solar_angle_valid frame_SEC_corrected frame_AAR sea)
  then show ?thesis using has r by (simp add: SEC_corrected_def)
qed

theorem north_pole_elevation_is_finite_witness:
  "valid_date 2000 1 1 \<and>
   SD_at (days_between \<lparr>d_year = 2000, d_month = 1, d_day = 1\<rparr> reference) 12 0 0
     = Some noon_declination \<and>
   - 90 < noon_declination \<and> noon_declination < - 10 \<and>
   v_HAS (solar_locals (days_between \<lparr>d_year = 2000, d_month = 1, d_day = 1\<rparr> reference)
            12 0 0 90 0) = None \<and>
   (\<exists>e. map_sum id fst (solar_angle 2000 1 1 12 0 0 90 0) = Inr (Some e) \<and>
        Some e = SEC_corrected (Some noon_declination) (AAR (Some noon_declination)))"
proof -
  have d: "SD_at (days_between \<lparr>d_year = 2000, d_month = 1, d_day = 1\<rparr> reference) 12 0 0
     = Some noon_declination"
    unfolding days_2000 by (rule noon_declination_J2000)
  from north_pole_elevation_is_finite [OF valid_2000 d noon_declination_J2000(2), of 0]
  show ?thesis using valid_2000 d noon_declination_J2000(2,3) by simp
qed

text \<open>
  Claim C3 as stated fails. On 2000-01-01 at 12:00 (\<open>tz = 0\<close>, \<open>lon = 0\<close>) at the
  North Pole the Sun is more than 10 degrees below the horizon, as it is all that day,
  and \<open>HAS\<close> is not finite; the call raises nothing and returns a finite elevation.
\<close>

theorem north_pole_polar_night_counterexample:
  "noon_declination < - 10 \<and>
   v_SEA (solar_locals (days_between \<lparr>d_year = 2000, d_month = 1, d_day = 1\<rparr> reference)
            12 0 0 90 0) = Some noon_declination \<and>
   v_HAS (solar_locals (days_between \<lparr>d_year = 2000, d_month = 1, d_day = 1\<rparr> reference)
            12 0 0 90 0) = None \<and>
   map_sum id fst (solar_angle 2000 1 1 12 0 0 90 0)
     = Inr (Some (noon_declination + (- 20.772 / tan (deg2rad noon_declination)) / 3600))"
proof -
  let ?v = "solar_locals 36525 12 0 0 90 0"
  note d = noon_declination_J2000
  have has: "v_HAS ?v = None" unfolding frame_HAS by (rule HAS_pole)
  have "v_SZA ?v = Some (90 - noon_declination)"
    unfolding frame_SZA d(1) using d(2,3) by (intro SZA_pole) simp_all
  then have sea: "v_SEA ?v = Some noon_declination" unfolding frame_SEA by (simp add: SEA_def)
  have "deg2rad noon_declination < 0" using d(3) deg2rad_quadrant(4) [of noon_declination] by simp
  moreover have "- (pi / 2) < deg2rad noon_declination"
    using d(2) deg2rad_quadrant(2) by blast
  ultimately have "tan (deg2rad noon_declination) < 0" by (intro tan_less_zero) simp_all
  then have t: "tan (deg2rad noon_declination) \<noteq> 0" by simp
  have "noon_declination \<le> - 0.575" using d(3) by simp
  then have "AAR (Some noon_declination)
      = Some (- 20.772 / tan (deg2rad noon_declination) / 3600)"
    unfolding AAR_neg [OF \<open>noon_declination \<le> - 0.575\<close>] using t by (simp add: np_div_def)
  then have "map_sum id fst (solar_angle 2000 1 1 12 0 0 90 0)
     = Inr (Some (noon_declination + (- 20.772 / tan (deg2rad noon_declination)) / 3600))"
    by (simp add: solar_angle_valid valid_2000 days_2000 frame_SEC_corrected frame_AAR sea
        SEC_corrected_def)
  then show ?thesis using has sea d(3) by (simp add: days_2000)
qed

end
